theory Spec2Isabelle
  imports Main
begin

section \<open>Values, errors and sequence operations\<close>

text \<open>
  The executor of \<^verbatim>\<open>from_nir.py\<close> moves Python values between units: tensors
  and tuples of values.  A tensor is its shape together with its entries in row-major
  order; entries are integers, so arithmetic is exact.  A tuple is a list of values.
\<close>

datatype val = Tensor "nat list" "int list" | Tuple "val list"

text \<open>
  Every \<^verbatim>\<open>raise\<close> of the source and every exception of an indexing, lookup or
  call the source performs is a constructor here.  \<open>ValueError\<close> carries the message
  the source formats.  \<open>UnitError\<close> is an exception raised inside a unit's own
  compute call.
\<close>

datatype error =
    ValueError string
  | KeyError string
  | IndexError
  | TypeError
  | RuntimeError
  | AssertionError string
  | UnboundLocalError
  | UnitError string

text \<open>\<^verbatim>\<open>out[0]\<close>: the first element of a tuple, the first row of a tensor.\<close>

fun getitem0 :: "val \<Rightarrow> error + val" where
  "getitem0 (Tuple []) = Inl IndexError"
| "getitem0 (Tuple (v # vs)) = Inr v"
| "getitem0 (Tensor [] d) = Inl IndexError"
| "getitem0 (Tensor (n # sh) d) =
     (if n = 0 then Inl IndexError else Inr (Tensor sh (take (prod_list sh) d)))"

text \<open>\<^verbatim>\<open>out[1:]\<close>: everything but the first element, or the first row.\<close>

fun slice1 :: "val \<Rightarrow> error + val" where
  "slice1 (Tuple vs) = Inr (Tuple (drop 1 vs))"
| "slice1 (Tensor [] d) = Inl IndexError"
| "slice1 (Tensor (n # sh) d) = Inr (Tensor ((n - 1) # sh) (drop (prod_list sh) d))"

fun rows :: "nat \<Rightarrow> nat \<Rightarrow> int list \<Rightarrow> int list list" where
  "rows 0 k d = []"
| "rows (Suc n) k d = take k d # rows n k (drop k d)"

text \<open>
  Iterating a value, as \<^verbatim>\<open>inputs.extend(v)\<close> does: the elements of a tuple, the
  rows of a tensor; a tensor without dimensions cannot be iterated.
\<close>

fun iterate :: "val \<Rightarrow> error + val list" where
  "iterate (Tuple vs) = Inr vs"
| "iterate (Tensor [] d) = Inl TypeError"
| "iterate (Tensor (n # sh) d) = Inr (map (Tensor sh) (rows n (prod_list sh) d))"

text \<open>
  \<^verbatim>\<open>torch.stack(vs).sum(0)\<close>: every element must be a tensor, all of one shape;
  the result has that shape and holds, at each position, the sum of the entries at that
  position.
\<close>

fun sum0 :: "int list list \<Rightarrow> int list" where
  "sum0 [] = []"
| "sum0 [d] = d"
| "sum0 (d # ds) = map2 (+) d (sum0 ds)"

fun is_tensor :: "val \<Rightarrow> bool" where
  "is_tensor (Tensor sh d) = True"
| "is_tensor (Tuple vs) = False"

fun shape_of :: "val \<Rightarrow> nat list" where
  "shape_of (Tensor sh d) = sh"
| "shape_of (Tuple vs) = []"

fun data_of :: "val \<Rightarrow> int list" where
  "data_of (Tensor sh d) = d"
| "data_of (Tuple vs) = []"

definition stack_sum :: "val list \<Rightarrow> error + val" where
  "stack_sum vs =
     (if vs = [] then Inl RuntimeError
      else if \<not> list_all is_tensor vs then Inl TypeError
      else if \<not> list_all (\<lambda>v. shape_of v = shape_of (hd vs)) vs then Inl RuntimeError
      else Inr (Tensor (shape_of (hd vs)) (sum0 (map data_of vs))))"

text \<open>Python's \<^verbatim>\<open>a in b\<close> on strings.\<close>

fun starts_with :: "string \<Rightarrow> string \<Rightarrow> bool" where
  "starts_with [] s = True"
| "starts_with (p # ps) [] = False"
| "starts_with (p # ps) (c # cs) = (p = c \<and> starts_with ps cs)"

fun contains :: "string \<Rightarrow> string \<Rightarrow> bool" where
  "contains p [] = (p = [])"
| "contains p (c # cs) = (starts_with p (c # cs) \<or> contains p cs)"

text \<open>The decimal text of a number, as an f-string renders a length.\<close>

fun str_nat :: "nat \<Rightarrow> string" where
  "str_nat n =
     (if n < 10 then [''0123456789'' ! n]
      else str_nat (n div 10) @ [''0123456789'' ! (n mod 10)])"

section \<open>Units, nodes, executor state\<close>

text \<open>
  A unit is a \<^verbatim>\<open>torch.nn.Module\<close>: its compute call on the positional
  arguments, the number of parameters of its \<^verbatim>\<open>forward\<close> signature, the text of
  its class, its class name, and the \<^verbatim>\<open>init_hidden\<close> flag that the source reads on
  snnTorch neurons.
\<close>

record module =
  compute :: "val list \<Rightarrow> error + val"
  arguments :: nat
  class_str :: string
  class_name :: string
  init_hidden :: bool

text \<open>
  A node has a name, the element it stands for, and its outgoing adjacency, kept as the
  names of the destinations with the shape on the edge.  In the executor the element is
  an optional unit (\<open>None\<close> for a boundary marker); in extraction it is the traced
  unit.
\<close>

record 'e node =
  name :: string
  elem :: 'e
  outgoing_nodes :: "(string \<times> nat list) list"

type_synonym exec_node = "module option node"

text \<open>\<^verbatim>\<open>GraphExecutorState\<close>: hidden values and cached outputs, both by node name.\<close>

record graph_executor_state =
  state :: "string \<rightharpoonup> val"
  cache :: "string \<rightharpoonup> val"

definition GraphExecutorState :: graph_executor_state where
  "GraphExecutorState = \<lparr>state = Map.empty, cache = Map.empty\<rparr>"

text \<open>
  The graph store of \<^verbatim>\<open>graph.py\<close> is used through its contract only: the mapping
  from unit to name (as the items of the dictionary), the declared inputs, the list of
  nodes, the recorded output shape of each unit, and the answers of the queries
  \<^verbatim>\<open>find_source_nodes_of\<close> and \<^verbatim>\<open>get_root\<close>, taken as given.
\<close>

record 'e graph =
  module_names :: "('e \<times> string) list"
  inputs :: "'e node list"
  node_list :: "'e node list"
  module_output_types :: "'e \<rightharpoonup> nat list"
  find_source_nodes_of :: "'e node \<Rightarrow> 'e node list"
  get_root :: "'e node list"

record executor =
  graph :: "module option graph"
  stateful_modules :: "string \<rightharpoonup> bool"
  execution_order :: "exec_node list"

section \<open>Construction of the executor\<close>





section \<open>One forward pass\<close>

text \<open>Lines 81 to 84 of \<^verbatim>\<open>_apply_module\<close>: the hidden values carried over.\<close>

definition state_inputs :: "executor \<Rightarrow> exec_node \<Rightarrow> graph_executor_state \<Rightarrow> error + val list" where
  "state_inputs ex nd old_state =
     (if name nd \<in> dom (stateful_modules ex) \<and> name nd \<in> dom (state old_state)
      then iterate (the (state old_state (name nd)))
      else Inr [])"

text \<open>Lines 87 to 95: the contributing values, the external data first.\<close>

fun gather :: "exec_node list \<Rightarrow> graph_executor_state \<Rightarrow> graph_executor_state \<Rightarrow> val list" where
  "gather [] new_state old_state = []"
| "gather (input_node # rest) new_state old_state =
     (if name input_node \<notin> dom (cache new_state) \<and> name input_node \<in> dom (cache old_state)
      then the (cache old_state (name input_node)) # gather rest new_state old_state
      else if name input_node \<in> dom (cache new_state)
      then the (cache new_state (name input_node)) # gather rest new_state old_state
      else gather rest new_state old_state)"

definition summed_inputs ::
  "exec_node list \<Rightarrow> graph_executor_state \<Rightarrow> graph_executor_state \<Rightarrow> val option \<Rightarrow> val list"
where
  "summed_inputs input_nodes new_state old_state data =
     (case data of None \<Rightarrow> [] | Some d \<Rightarrow> [d]) @ gather input_nodes new_state old_state"

text \<open>Lines 97 to 102: the data argument, inserted at position 0 of the arguments.\<close>

definition combine_inputs :: "exec_node \<Rightarrow> val list \<Rightarrow> val list \<Rightarrow> error + val list" where
  "combine_inputs nd summed ins =
     (if length summed = 0 then Inl (ValueError (''No inputs found for node '' @ name nd))
      else if length summed = 1 then Inr (hd summed # ins)
      else case stack_sum summed of Inl e \<Rightarrow> Inl e | Inr s \<Rightarrow> Inr (s # ins))"

text \<open>Lines 105 to 117: what is kept of the unit's result.\<close>

definition is_rsynaptic :: "module \<Rightarrow> bool" where
  "is_rsynaptic m = contains ''snntorch._neurons.rsynaptic.RSynaptic'' (class_str m)"

definition store_output ::
  "executor \<Rightarrow> exec_node \<Rightarrow> module \<Rightarrow> graph_executor_state \<Rightarrow> val
     \<Rightarrow> error + (val \<times> graph_executor_state)"
where
  "store_output ex nd m new_state out =
     (if is_rsynaptic m \<and> \<not> init_hidden m then
        if \<not> contains ''lif'' (name nd) then Inl (AssertionError ''this shouldnt happen..'')
        else case getitem0 out of
               Inl e \<Rightarrow> Inl e
             | Inr out0 \<Rightarrow> Inr (out0, new_state\<lparr>state := (state new_state)(name nd \<mapsto> out)\<rparr>)
      else case stateful_modules ex (name nd) of
             None \<Rightarrow> Inl (KeyError (name nd))
           | Some False \<Rightarrow> Inr (out, new_state)
           | Some True \<Rightarrow>
               (case slice1 out of
                  Inl e \<Rightarrow> Inl e
                | Inr hidden \<Rightarrow>
                    (case getitem0 out of
                       Inl e \<Rightarrow> Inl e
                     | Inr out0 \<Rightarrow>
                         Inr (out0, new_state\<lparr>state := (state new_state)(name nd \<mapsto> hidden)\<rparr>))))"

definition apply_module ::
  "executor \<Rightarrow> exec_node \<Rightarrow> exec_node list \<Rightarrow> graph_executor_state \<Rightarrow> graph_executor_state
     \<Rightarrow> val option \<Rightarrow> error + (val \<times> graph_executor_state)"
where
  "apply_module ex nd input_nodes new_state old_state data =
     (case state_inputs ex nd old_state of
        Inl e \<Rightarrow> Inl e
      | Inr ins \<Rightarrow>
          (case combine_inputs nd (summed_inputs input_nodes new_state old_state data) ins of
             Inl e \<Rightarrow> Inl e
           | Inr args \<Rightarrow>
               (case elem nd of
                  None \<Rightarrow> Inl TypeError
                | Some m \<Rightarrow>
                    (case compute m args of
                       Inl e \<Rightarrow> Inl e
                     | Inr out \<Rightarrow> store_output ex nd m new_state out))))"

text \<open>
  The body of the loop of \<^verbatim>\<open>forward\<close>, on the loop's two variables: the flag
  \<^verbatim>\<open>first_node\<close> and the state being built.
\<close>

definition forward_step ::
  "executor \<Rightarrow> val \<Rightarrow> graph_executor_state \<Rightarrow> bool \<times> graph_executor_state \<Rightarrow> exec_node
     \<Rightarrow> error + (bool \<times> graph_executor_state)"
where
  "forward_step ex data old_state fs nd =
     (let input_nodes = find_source_nodes_of (graph ex) nd in
      if elem nd = None then Inr fs
      else case apply_module ex nd input_nodes (snd fs) old_state
                  (if fst fs then Some data else None) of
             Inl e \<Rightarrow> Inl e
           | Inr (out, new_state) \<Rightarrow>
               Inr (False, new_state\<lparr>cache := (cache new_state)(name nd \<mapsto> out)\<rparr>))"

fun forward_loop ::
  "executor \<Rightarrow> val \<Rightarrow> graph_executor_state \<Rightarrow> exec_node list \<Rightarrow> bool \<times> graph_executor_state
     \<Rightarrow> error + (bool \<times> graph_executor_state)"
where
  "forward_loop ex data old_state [] fs = Inr fs"
| "forward_loop ex data old_state (nd # rest) fs =
     (case forward_step ex data old_state fs nd of
        Inl e \<Rightarrow> Inl e
      | Inr fs' \<Rightarrow> forward_loop ex data old_state rest fs')"

text \<open>
  Lines 141 to 144: the loop variable \<^verbatim>\<open>node\<close> is the last node of the order (and
  unbound when the order is empty); \<^verbatim>\<open>execution_order[-2]\<close> needs two nodes.
\<close>

definition forward_output :: "exec_node list \<Rightarrow> graph_executor_state \<Rightarrow> error + val" where
  "forward_output order new_state =
     (if order = [] then Inl UnboundLocalError
      else if name (last order) \<in> dom (cache new_state)
      then Inr (the (cache new_state (name (last order))))
      else if length order < 2 then Inl IndexError
      else case cache new_state (name (order ! (length order - 2))) of
             None \<Rightarrow> Inl (KeyError (name (order ! (length order - 2))))
           | Some v \<Rightarrow> Inr v)"

text \<open>Lines 122 and 123: an omitted state is a fresh one.\<close>

definition initial_state :: "graph_executor_state option \<Rightarrow> graph_executor_state" where
  "initial_state old_state_arg =
     (case old_state_arg of None \<Rightarrow> GraphExecutorState | Some s \<Rightarrow> s)"

text \<open>Lines 124 to 139: the walk over the execution order, from a fresh new state.\<close>

definition walk ::
  "executor \<Rightarrow> val \<Rightarrow> graph_executor_state option \<Rightarrow> error + (bool \<times> graph_executor_state)"
where
  "walk ex data old_state_arg =
     forward_loop ex data (initial_state old_state_arg) (execution_order ex)
       (True, GraphExecutorState)"

definition forward ::
  "executor \<Rightarrow> val \<Rightarrow> graph_executor_state option \<Rightarrow> error + (val \<times> graph_executor_state)"
where
  "forward ex data old_state_arg =
     (case walk ex data old_state_arg of
        Inl e \<Rightarrow> Inl e
      | Inr (first_node, new_state) \<Rightarrow>
          (case forward_output (execution_order ex) new_state of
             Inl e \<Rightarrow> Inl e
           | Inr v \<Rightarrow> Inr (v, new_state)))"

section \<open>Reconstruction of a graph from the IR\<close>

text \<open>
  An IR node is an \<open>Input\<close> or \<open>Output\<close> marker with its shape, an opaque leaf, or
  a graph of named nodes and edges.  \<open>Foreign\<close> is a value found among the nodes of a
  subgraph that is not an IR node; the source reads its \<^verbatim>\<open>name\<close> attribute.
\<close>

datatype nir_node =
    Input "nat list"
  | Output "nat list"
  | Leaf string
  | NIRGraph "(string \<times> nir_node) list" "(string \<times> string) list"
  | Foreign string

text \<open>
  A Python dictionary whose order of keys matters is the list of its items:
  assigning to a present key keeps its place, a new key goes last.
\<close>

fun dict_set :: "('k \<times> 'v) list \<Rightarrow> 'k \<Rightarrow> 'v \<Rightarrow> ('k \<times> 'v) list" where
  "dict_set [] k v = [(k, v)]"
| "dict_set ((k', v') # rest) k v =
     (if k' = k then (k', v) # rest else (k', v') # dict_set rest k v)"

fun is_Input :: "nir_node \<Rightarrow> bool" where
  "is_Input (Input sh) = True"
| "is_Input other = False"

text \<open>Lines 155 to 158 of \<^verbatim>\<open>_mod_nir_to_graph\<close>: the endpoints of one edge.\<close>

definition resolve_src :: "(string \<times> 'e) list \<Rightarrow> string \<Rightarrow> string" where
  "resolve_src nodes src =
     (if src \<notin> dom (map_of nodes) \<and> (src @ ''.output'') \<in> dom (map_of nodes)
      then src @ ''.output'' else src)"

definition resolve_dst :: "(string \<times> 'e) list \<Rightarrow> string \<Rightarrow> string" where
  "resolve_dst nodes dst =
     (if dst \<notin> dom (map_of nodes) \<and> (dst @ ''.input'') \<in> dom (map_of nodes)
      then dst @ ''.input'' else dst)"

text \<open>
  The loop over the edges.  \<^verbatim>\<open>Graph.add_edge\<close> belongs to \<^verbatim>\<open>graph.py\<close> and is
  a parameter; it receives the two units that the resolved names denote.  A resolved
  name that is no key of the nodes raises \<^verbatim>\<open>KeyError\<close>, the source endpoint first.
\<close>

fun add_edges ::
  "('g \<Rightarrow> 'e \<Rightarrow> 'e \<Rightarrow> 'g) \<Rightarrow> (string \<times> 'e) list \<Rightarrow> (string \<times> string) list \<Rightarrow> 'g \<Rightarrow> error + 'g"
where
  "add_edges add_edge nodes [] g = Inr g"
| "add_edges add_edge nodes ((src, dst) # rest) g =
     (case map_of nodes (resolve_src nodes src) of
        None \<Rightarrow> Inl (KeyError (resolve_src nodes src))
      | Some s \<Rightarrow>
          (case map_of nodes (resolve_dst nodes dst) of
             None \<Rightarrow> Inl (KeyError (resolve_dst nodes dst))
           | Some d \<Rightarrow> add_edges add_edge nodes rest (add_edge g s d)))"

text \<open>
  \<^verbatim>\<open>_mod_nir_to_graph\<close>.  The constructor \<^verbatim>\<open>Graph\<close> is a parameter as well; it
  receives the dictionary from unit to name and the names of the \<open>Input\<close> nodes.
\<close>

definition new_graph ::
  "(('e \<times> string) list \<Rightarrow> string list \<Rightarrow> 'g) \<Rightarrow> (string \<times> 'e) list
     \<Rightarrow> (string \<times> nir_node) list \<Rightarrow> 'g"
where
  "new_graph Graph nodes nir_nodes =
     (let module_names = foldl (\<lambda>d (nm, m). dict_set d m nm) [] nodes;
          inputs = map fst (filter (\<lambda>(nm, nd). is_Input nd) nir_nodes)
      in Graph module_names inputs)"

definition mod_nir_to_graph ::
  "(('e \<times> string) list \<Rightarrow> string list \<Rightarrow> 'g) \<Rightarrow> ('g \<Rightarrow> 'e \<Rightarrow> 'e \<Rightarrow> 'g)
     \<Rightarrow> (string \<times> 'e) list \<Rightarrow> (string \<times> string) list \<Rightarrow> (string \<times> nir_node) list \<Rightarrow> error + 'g"
where
  "mod_nir_to_graph Graph add_edge nodes edges nir_nodes =
     add_edges add_edge nodes edges (new_graph Graph nodes nir_nodes)"

section \<open>Extraction of the IR from a traced graph\<close>

text \<open>
  \<^verbatim>\<open>np.delete(shape, ignore_dims)\<close> on a one-dimensional array: the entries at the
  given positions are left out; a negative position counts from the end; a position
  outside the array raises \<^verbatim>\<open>IndexError\<close>.
\<close>

definition np_delete :: "nat list \<Rightarrow> int list \<Rightarrow> error + nat list" where
  "np_delete arr obj =
     (let n = int (length arr) in
      if list_ex (\<lambda>i. i < - n \<or> n \<le> i) obj then Inl IndexError
      else Inr (map snd (filter (\<lambda>(i, x). int i \<notin> set (map (\<lambda>j. if j < 0 then j + n else j) obj))
                          (enumerate 0 arr))))"

text \<open>\<^verbatim>\<open>if ignore_dims:\<close> holds for a sequence that is given and not empty.\<close>

definition ignore_shape :: "int list option \<Rightarrow> nat list \<Rightarrow> error + nat list" where
  "ignore_shape ignore_dims sh =
     (case ignore_dims of
        None \<Rightarrow> Inr sh
      | Some dims \<Rightarrow> if dims = [] then Inr sh else np_delete sh dims)"

text \<open>Lines 70 to 76: the nodes of a mapped subgraph, under the name of the traced node.\<close>

fun inline_nodes ::
  "string \<Rightarrow> (string \<times> nir_node) list \<Rightarrow> (string \<times> nir_node) list \<Rightarrow> (string \<times> nir_node) list"
where
  "inline_nodes nm [] nir_nodes = nir_nodes"
| "inline_nodes nm ((k, v) # rest) nir_nodes =
     inline_nodes nm rest
       (case v of
          Foreign vn \<Rightarrow> dict_set nir_nodes vn v
        | _ \<Rightarrow> dict_set nir_nodes (nm @ ''.'' @ k) v)"

text \<open>
  Lines 65 to 88: one round of the first loop, on the dictionary of IR nodes and the
  list of IR edges.
\<close>

definition convert_node ::
  "('m \<Rightarrow> nir_node) \<Rightarrow> nat \<Rightarrow> 'm node
     \<Rightarrow> (string \<times> nir_node) list \<times> (string \<times> string) list
     \<Rightarrow> (string \<times> nir_node) list \<times> (string \<times> string) list"
where
  "convert_node model_map indx nd st =
     (let st1 =
        (case model_map (elem nd) of
           NIRGraph sub_nodes sub_edges \<Rightarrow>
             (inline_nodes (name nd) sub_nodes (fst st),
              snd st @ map (\<lambda>(x, y). (name nd @ ''.'' @ x, name nd @ ''.'' @ y)) sub_edges)
         | mapped_node \<Rightarrow> (dict_set (fst st) (name nd) mapped_node, snd st))
      in if indx = 0
         then (fst st1, snd st1 @ zip (butlast (map fst (fst st1))) (tl (map fst (fst st1))))
         else st1)"

fun convert_nodes ::
  "('m \<Rightarrow> nir_node) \<Rightarrow> nat \<Rightarrow> 'm node list
     \<Rightarrow> (string \<times> nir_node) list \<times> (string \<times> string) list
     \<Rightarrow> (string \<times> nir_node) list \<times> (string \<times> string) list"
where
  "convert_nodes model_map indx [] st = st"
| "convert_nodes model_map indx (nd # rest) st =
     convert_nodes model_map (Suc indx) rest (convert_node model_map indx nd st)"

text \<open>
  Lines 91 to 106: the second loop.  A node without outgoing edges assigns the key
  \<^verbatim>\<open>"output"\<close> of the dictionary.  A unit without a recorded output shape raises
  \<^verbatim>\<open>KeyError\<close>, reported here under the node's name.
\<close>

fun collect_edges ::
  "'m graph \<Rightarrow> int list option \<Rightarrow> 'm node list
     \<Rightarrow> (string \<times> nir_node) list \<times> (string \<times> string) list
     \<Rightarrow> error + ((string \<times> nir_node) list \<times> (string \<times> string) list)"
where
  "collect_edges torch_graph ignore_dims [] st = Inr st"
| "collect_edges torch_graph ignore_dims (nd # rest) st =
     (let es = snd st @ map (\<lambda>(destination, shape). (name nd, destination)) (outgoing_nodes nd) in
      if length (outgoing_nodes nd) = 0 then
        (case module_output_types torch_graph (elem nd) of
           None \<Rightarrow> Inl (KeyError (name nd))
         | Some sh \<Rightarrow>
             (case ignore_shape ignore_dims sh of
                Inl e \<Rightarrow> Inl e
              | Inr out_shape \<Rightarrow>
                  collect_edges torch_graph ignore_dims rest
                    (dict_set (fst st) ''output'' (Output out_shape), es @ [(name nd, ''output'')])))
      else collect_edges torch_graph ignore_dims rest (fst st, es))"

text \<open>
  \<^verbatim>\<open>extract_nir_graph\<close>, from the traced graph that the tracer of \<^verbatim>\<open>graph.py\<close>
  returns and the shape of the sample.  \<^verbatim>\<open>list(set(nir_edges))\<close> has no order of its
  own; the model keeps the first occurrence of every edge, and only the set of edges is
  meaningful.
\<close>

definition extract_nir_graph ::
  "('m \<Rightarrow> nir_node) \<Rightarrow> 'm graph \<Rightarrow> nat list \<Rightarrow> int list option \<Rightarrow> error + nir_node"
where
  "extract_nir_graph model_map torch_graph sample_shape ignore_dims =
     (if length (get_root torch_graph) \<noteq> 1
      then Inl (ValueError (''Currently, only one input is supported, but ''
                  @ str_nat (length (get_root torch_graph)) @ '' was given''))
      else case ignore_shape ignore_dims sample_shape of
             Inl e \<Rightarrow> Inl e
           | Inr input_shape \<Rightarrow>
               (case collect_edges torch_graph ignore_dims (node_list torch_graph)
                       (convert_nodes model_map 0 (node_list torch_graph)
                          ([(''input'', Input input_shape)], [])) of
                  Inl e \<Rightarrow> Inl e
                | Inr (nir_nodes, nir_edges) \<Rightarrow> Inr (NIRGraph nir_nodes (remdups nir_edges))))"

section \<open>Stateless and feed-forward executors, threaded states\<close>






section \<open>Concrete graphs\<close>

text \<open>
  \<^verbatim>\<open>torch.nn.Identity\<close>: one parameter, returns its argument.  Calling it with
  another number of arguments raises \<^verbatim>\<open>TypeError\<close>.
\<close>

definition Identity :: module where
  "Identity = \<lparr>compute = (\<lambda>args. case args of [x] \<Rightarrow> Inr x | _ \<Rightarrow> Inl TypeError),
     arguments = 1, class_str = ''torch.nn.modules.linear.Identity'',
     class_name = ''Identity'', init_hidden = False\<rparr>"

definition unit_node :: "string \<Rightarrow> module \<Rightarrow> exec_node" where
  "unit_node nm m = \<lparr>name = nm, elem = Some m, outgoing_nodes = []\<rparr>"

definition marker :: "string \<Rightarrow> exec_node" where
  "marker nm = \<lparr>name = nm, elem = None, outgoing_nodes = []\<rparr>"

text \<open>A graph store over the given nodes that answers the source query from a table.\<close>

definition table_graph ::
  "exec_node list \<Rightarrow> (string \<times> exec_node list) list \<Rightarrow> module option graph"
where
  "table_graph ns srcs =
     \<lparr>module_names = map (\<lambda>n. (elem n, name n)) ns, inputs = take 1 ns, node_list = ns,
      module_output_types = Map.empty,
      find_source_nodes_of = (\<lambda>n. case map_of srcs (name n) of None \<Rightarrow> [] | Some ps \<Rightarrow> ps),
      get_root = take 1 ns\<rparr>"

text \<open>A unit followed by the boundary marker of the output.\<close>

definition ex_marker_last :: executor where
  "ex_marker_last =
     \<lparr>graph = table_graph [unit_node ''a'' Identity, marker ''output'']
                [(''output'', [unit_node ''a'' Identity])],
      stateful_modules = [''a'' \<mapsto> False],
      execution_order = [unit_node ''a'' Identity, marker ''output'']\<rparr>"

text \<open>Orders made of boundary markers only.\<close>

definition ex_only_marker :: executor where
  "ex_only_marker =
     \<lparr>graph = table_graph [marker ''output''] [],
      stateful_modules = Map.empty,
      execution_order = [marker ''output'']\<rparr>"

definition ex_two_markers :: executor where
  "ex_two_markers =
     \<lparr>graph = table_graph [marker ''input'', marker ''output'']
                [(''output'', [marker ''input''])],
      stateful_modules = Map.empty,
      execution_order = [marker ''input'', marker ''output'']\<rparr>"





text \<open>
  A graph store that only records the edges added to it, and an IR with the boundary
  nodes of a subgraph \<open>sub\<close>.
\<close>

definition log_graph :: "(string \<times> string) list \<Rightarrow> string list \<Rightarrow> (string \<times> string) list" where
  "log_graph names ins = []"

definition log_edge :: "(string \<times> string) list \<Rightarrow> string \<Rightarrow> string \<Rightarrow> (string \<times> string) list" where
  "log_edge g s d = g @ [(s, d)]"

definition boundary_nodes :: "(string \<times> string) list" where
  "boundary_nodes = [(''input'', ''U_input''), (''sub.input'', ''U_sub_input''),
                     (''sub.output'', ''U_sub_output''), (''output'', ''U_output'')]"

definition boundary_edges :: "(string \<times> string) list" where
  "boundary_edges = [(''input'', ''sub''), (''sub.input'', ''sub.output''), (''sub'', ''output'')]"



text \<open>A node \<open>c\<close> whose only source never produces a value.\<close>

definition ex_orphan :: executor where
  "ex_orphan =
     \<lparr>graph = table_graph [unit_node ''a'' Identity, unit_node ''c'' Identity]
                [(''c'', [marker ''x''])],
      stateful_modules = [''a'' \<mapsto> False, ''c'' \<mapsto> False],
      execution_order = [unit_node ''a'' Identity, unit_node ''c'' Identity]\<rparr>"






text \<open>
  A traced graph with one root \<open>a\<close> and two nodes without outgoing edges, \<open>b\<close> and
  \<open>c\<close>, whose recorded output shapes differ.
\<close>

definition two_sinks_graph :: "string graph" where
  "two_sinks_graph =
     \<lparr>module_names = [(''A'', ''a''), (''B'', ''b''), (''C'', ''c'')],
      inputs = [],
      node_list = [\<lparr>name = ''a'', elem = ''A'', outgoing_nodes = [(''b'', [4, 2]), (''c'', [4, 2])]\<rparr>,
                   \<lparr>name = ''b'', elem = ''B'', outgoing_nodes = []\<rparr>,
                   \<lparr>name = ''c'', elem = ''C'', outgoing_nodes = []\<rparr>],
      module_output_types = [''A'' \<mapsto> [4, 2], ''B'' \<mapsto> [4, 2], ''C'' \<mapsto> [4, 3]],
      find_source_nodes_of = (\<lambda>n. []),
      get_root = [\<lparr>name = ''a'', elem = ''A'', outgoing_nodes = [(''b'', [4, 2]), (''c'', [4, 2])]\<rparr>]\<rparr>"

section \<open>Properties of the forward pass\<close>

lemmas exec_defs = forward_step_def apply_module_def state_inputs_def summed_inputs_def
  combine_inputs_def store_output_def is_rsynaptic_def GraphExecutorState_def initial_state_def
  unit_node_def marker_def table_graph_def Identity_def

lemma forward_walk:
  "forward ex data old =
     (case walk ex data old of
        Inl e \<Rightarrow> Inl e
      | Inr fs \<Rightarrow> (case forward_output (execution_order ex) (snd fs) of
                     Inl e \<Rightarrow> Inl e | Inr v \<Rightarrow> Inr (v, snd fs)))"
  by (simp add: forward_def split: sum.splits prod.splits)

subsection \<open>The output of a pass\<close>

text \<open>
  C2.  A forward pass returns the output \<open>v\<close> with the state \<open>s\<close> exactly when the
  walk over the execution order ends in \<open>s\<close> and either the cache of \<open>s\<close> holds \<open>v\<close>
  for the last node of the order, or it holds nothing for the last node, the order has
  at least two nodes and the cache holds \<open>v\<close> for the second-to-last node.  The
  substitution is silent: the result is an ordinary return value.
\<close>

theorem forward_output_last_or_second_to_last:
  "forward ex data old = Inr (v, s) \<longleftrightarrow>
     (\<exists>f. walk ex data old = Inr (f, s)) \<and> execution_order ex \<noteq> [] \<and>
     (cache s (name (last (execution_order ex))) = Some v
      \<or> (cache s (name (last (execution_order ex))) = None
          \<and> 2 \<le> length (execution_order ex)
          \<and> cache s (name (execution_order ex ! (length (execution_order ex) - 2))) = Some v))"
  by (auto simp: forward_walk forward_output_def split: sum.splits option.splits if_splits)

lemma walk_marker_last:
  "walk ex_marker_last (Tensor [2] [1, 2]) None
     = Inr (False, \<lparr>state = Map.empty, cache = [''a'' \<mapsto> Tensor [2] [1, 2]]\<rparr>)"
  by (simp add: walk_def ex_marker_last_def exec_defs)

lemma order_marker_last:
  "execution_order ex_marker_last = [unit_node ''a'' Identity, marker ''output'']"
  by (simp add: ex_marker_last_def)

theorem forward_output_last_or_second_to_last_witness:
  "forward ex_marker_last (Tensor [2] [1, 2]) None
     = Inr (Tensor [2] [1, 2], \<lparr>state = Map.empty, cache = [''a'' \<mapsto> Tensor [2] [1, 2]]\<rparr>)"
  by (rule iffD2 [OF forward_output_last_or_second_to_last])
     (auto simp: walk_marker_last order_marker_last unit_node_def marker_def)

text \<open>
  C10.  When the walk ends and the cache holds nothing for the last node of the order,
  the pass reads position \<open>-2\<close> of the order without a guard: an order of one node
  ends the pass with \<^verbatim>\<open>IndexError\<close>, and a second-to-last node without a cache
  entry ends it with \<^verbatim>\<open>KeyError\<close>.  Neither is an error the executor reports
  itself, and no output is returned.
\<close>

theorem forward_fallback_unguarded:
  assumes "walk ex data old = Inr (f, s)"
    and "cache s (name (last (execution_order ex))) = None"
    and "execution_order ex \<noteq> []"
  shows "(length (execution_order ex) < 2 \<longrightarrow> forward ex data old = Inl IndexError)
       \<and> (2 \<le> length (execution_order ex)
            \<and> cache s (name (execution_order ex ! (length (execution_order ex) - 2))) = None
          \<longrightarrow> forward ex data old
                = Inl (KeyError (name (execution_order ex ! (length (execution_order ex) - 2)))))"
  using assms by (auto simp: forward_walk forward_output_def)

theorem forward_fallback_unguarded_witness:
  "forward ex_only_marker (Tensor [2] [1, 2]) None = Inl IndexError
   \<and> forward ex_two_markers (Tensor [2] [1, 2]) None = Inl (KeyError ''input'')"
proof -
  have w1: "walk ex_only_marker (Tensor [2] [1, 2]) None = Inr (True, GraphExecutorState)"
    by (simp add: walk_def ex_only_marker_def exec_defs)
  have c1: "cache GraphExecutorState (name (last (execution_order ex_only_marker))) = None"
    by (simp add: ex_only_marker_def exec_defs)
  have n1: "execution_order ex_only_marker \<noteq> []"
    by (simp add: ex_only_marker_def)
  have w2: "walk ex_two_markers (Tensor [2] [1, 2]) None = Inr (True, GraphExecutorState)"
    by (simp add: walk_def ex_two_markers_def exec_defs)
  have c2: "cache GraphExecutorState (name (last (execution_order ex_two_markers))) = None"
    by (simp add: ex_two_markers_def exec_defs)
  have n2: "execution_order ex_two_markers \<noteq> []"
    by (simp add: ex_two_markers_def)
  show ?thesis
    using forward_fallback_unguarded [OF w1 c1 n1] forward_fallback_unguarded [OF w2 c2 n2]
    by (simp add: ex_only_marker_def ex_two_markers_def exec_defs)
qed

section \<open>Properties of construction and reconstruction\<close>



lemma add_edges_resolved:
  "list_all (\<lambda>(s, d). resolve_src nodes s \<in> dom (map_of nodes)
                      \<and> resolve_dst nodes d \<in> dom (map_of nodes)) edges \<Longrightarrow>
   add_edges add_edge nodes edges g
     = Inr (foldl (\<lambda>g (s, d). add_edge g (the (map_of nodes (resolve_src nodes s)))
                                        (the (map_of nodes (resolve_dst nodes d)))) g edges)"
  by (induction edges arbitrary: g) (auto split: option.splits)

lemma add_edges_unresolved:
  "\<not> list_all (\<lambda>(s, d). resolve_src nodes s \<in> dom (map_of nodes)
                      \<and> resolve_dst nodes d \<in> dom (map_of nodes)) edges \<Longrightarrow>
   \<exists>k. add_edges add_edge nodes edges g = Inl (KeyError k)"
  by (induction edges arbitrary: g) (auto split: option.splits)

text \<open>
  C8.  The source endpoint of an IR edge that names no node, while the name followed by
  \<^verbatim>\<open>.output\<close> does, is replaced by that longer name; the destination endpoint
  that names no node, while the name followed by \<^verbatim>\<open>.input\<close> does, is replaced
  likewise; every other endpoint is left as it is.  When all endpoints, so resolved,
  name nodes, reconstruction returns the graph to which every edge was added, in order,
  between the units of its resolved endpoints; an endpoint that still names no node
  ends reconstruction with \<^verbatim>\<open>KeyError\<close>.
\<close>

theorem reconstruction_rewrites_boundary_endpoints:
  "(src \<notin> dom (map_of nodes) \<and> src @ ''.output'' \<in> dom (map_of nodes) \<longrightarrow>
      resolve_src nodes src = src @ ''.output'')
   \<and> (\<not> (src \<notin> dom (map_of nodes) \<and> src @ ''.output'' \<in> dom (map_of nodes)) \<longrightarrow>
      resolve_src nodes src = src)
   \<and> (dst \<notin> dom (map_of nodes) \<and> dst @ ''.input'' \<in> dom (map_of nodes) \<longrightarrow>
      resolve_dst nodes dst = dst @ ''.input'')
   \<and> (\<not> (dst \<notin> dom (map_of nodes) \<and> dst @ ''.input'' \<in> dom (map_of nodes)) \<longrightarrow>
      resolve_dst nodes dst = dst)
   \<and> (list_all (\<lambda>(s, d). resolve_src nodes s \<in> dom (map_of nodes)
                          \<and> resolve_dst nodes d \<in> dom (map_of nodes)) edges \<longrightarrow>
      mod_nir_to_graph Graph add_edge nodes edges nir_nodes
        = Inr (foldl (\<lambda>g (s, d). add_edge g (the (map_of nodes (resolve_src nodes s)))
                                           (the (map_of nodes (resolve_dst nodes d))))
                 (new_graph Graph nodes nir_nodes) edges))
   \<and> (\<not> list_all (\<lambda>(s, d). resolve_src nodes s \<in> dom (map_of nodes)
                          \<and> resolve_dst nodes d \<in> dom (map_of nodes)) edges \<longrightarrow>
      (\<exists>k. mod_nir_to_graph Graph add_edge nodes edges nir_nodes = Inl (KeyError k)))"
  using add_edges_resolved [of nodes edges add_edge "new_graph Graph nodes nir_nodes"]
        add_edges_unresolved [of nodes edges add_edge "new_graph Graph nodes nir_nodes"]
  by (simp add: resolve_src_def resolve_dst_def mod_nir_to_graph_def)

theorem reconstruction_rewrites_boundary_endpoints_witness:
  "resolve_src boundary_nodes ''sub'' = ''sub.output''
   \<and> resolve_src boundary_nodes ''input'' = ''input''
   \<and> resolve_dst boundary_nodes ''sub'' = ''sub.input''
   \<and> resolve_dst boundary_nodes ''output'' = ''output''
   \<and> mod_nir_to_graph log_graph log_edge boundary_nodes boundary_edges []
       = Inr [(''U_input'', ''U_sub_input''), (''U_sub_input'', ''U_sub_output''),
              (''U_sub_output'', ''U_output'')]
   \<and> (\<exists>k. mod_nir_to_graph log_graph log_edge boundary_nodes [(''input'', ''nowhere'')] []
            = Inl (KeyError k))"
  using reconstruction_rewrites_boundary_endpoints
          [of "''sub''" boundary_nodes "''sub''" boundary_edges log_graph log_edge "[]"]
        reconstruction_rewrites_boundary_endpoints
          [of "''input''" boundary_nodes "''output''" "[(''input'', ''nowhere'')]" log_graph log_edge "[]"]
  by (simp add: boundary_nodes_def boundary_edges_def resolve_src_def resolve_dst_def
        new_graph_def log_graph_def log_edge_def)

section \<open>Properties of one application of a unit\<close>






lemma forward_loop_append:
  "forward_loop ex data old_state (xs @ ys) fs =
     (case forward_loop ex data old_state xs fs of
        Inl e \<Rightarrow> Inl e
      | Inr fs' \<Rightarrow> forward_loop ex data old_state ys fs')"
  by (induction xs arbitrary: fs) (auto split: sum.splits)

lemma gather_none:
  "\<forall>p\<in>set srcs. cache new_state (name p) = None \<and> cache old_state (name p) = None \<Longrightarrow>
   gather srcs new_state old_state = []"
  by (induction srcs) (auto simp: dom_def)

text \<open>
  C5.  When the walk reaches a node with a unit after the external input has been
  consumed, and no source of the node has a value in the cache of this pass or of the
  previous pass, the application of the unit ends with the error
  \<^verbatim>\<open>No inputs found for node\<close> followed by the node's name, and so does the whole
  forward pass: no output and no state are returned.
\<close>

theorem missing_inputs_fatal:
  assumes "execution_order ex = pre @ nd # post"
    and "forward_loop ex data (initial_state old) pre (True, GraphExecutorState) = Inr (False, new_state)"
    and "elem nd \<noteq> None"
    and "\<forall>p\<in>set (find_source_nodes_of (graph ex) nd).
           cache new_state (name p) = None \<and> cache (initial_state old) (name p) = None"
    and "state_inputs ex nd (initial_state old) = Inr hs"
  shows "apply_module ex nd (find_source_nodes_of (graph ex) nd) new_state (initial_state old) None
           = Inl (ValueError (''No inputs found for node '' @ name nd))
       \<and> forward ex data old = Inl (ValueError (''No inputs found for node '' @ name nd))"
proof -
  have g: "gather (find_source_nodes_of (graph ex) nd) new_state (initial_state old) = []"
    using assms(4) by (rule gather_none)
  have a: "apply_module ex nd (find_source_nodes_of (graph ex) nd) new_state (initial_state old) None
           = Inl (ValueError (''No inputs found for node '' @ name nd))"
    using assms(5) by (simp add: apply_module_def summed_inputs_def combine_inputs_def g)
  have "forward_step ex data (initial_state old) (False, new_state) nd
          = Inl (ValueError (''No inputs found for node '' @ name nd))"
    using assms(3) a by (simp add: forward_step_def)
  then have "walk ex data old = Inl (ValueError (''No inputs found for node '' @ name nd))"
    using assms(1,2) by (simp add: walk_def forward_loop_append)
  then show ?thesis using a by (simp add: forward_def)
qed

theorem missing_inputs_fatal_witness:
  "forward ex_orphan (Tensor [2] [1, 2]) None = Inl (ValueError ''No inputs found for node c'')"
proof -
  have o: "execution_order ex_orphan = [unit_node ''a'' Identity] @ unit_node ''c'' Identity # []"
    by (simp add: ex_orphan_def)
  have r: "forward_loop ex_orphan (Tensor [2] [1, 2]) (initial_state None) [unit_node ''a'' Identity]
             (True, GraphExecutorState)
           = Inr (False, \<lparr>state = Map.empty, cache = [''a'' \<mapsto> Tensor [2] [1, 2]]\<rparr>)"
    by (simp add: ex_orphan_def exec_defs)
  have m: "elem (unit_node ''c'' Identity) \<noteq> None"
    by (simp add: unit_node_def)
  have n: "\<forall>p\<in>set (find_source_nodes_of (graph ex_orphan) (unit_node ''c'' Identity)).
             cache \<lparr>state = Map.empty, cache = [''a'' \<mapsto> Tensor [2] [1, 2]]\<rparr> (name p) = None
             \<and> cache (initial_state None) (name p) = None"
    by (simp add: ex_orphan_def exec_defs)
  have h: "state_inputs ex_orphan (unit_node ''c'' Identity) (initial_state None) = Inr []"
    by (simp add: exec_defs)
  show ?thesis
    using missing_inputs_fatal [OF o r m n h] by (simp add: unit_node_def)
qed

section \<open>Properties of the walk\<close>









section \<open>Hidden values across calls\<close>










section \<open>Repeated calls without stateful nodes\<close>

















section \<open>Properties of extraction\<close>

lemma map_of_dict_set: "map_of (dict_set ns k v) = (map_of ns)(k \<mapsto> v)"
  by (induction ns) (auto simp: fun_eq_iff)

lemma collect_edges_cases:
  "collect_edges g dims (nd # rest) st = Inr st' \<Longrightarrow>
   (outgoing_nodes nd \<noteq> []
      \<and> collect_edges g dims rest
           (fst st, snd st @ map (\<lambda>(destination, shape). (name nd, destination)) (outgoing_nodes nd))
          = Inr st')
   \<or> (outgoing_nodes nd = []
      \<and> (\<exists>sh out_shape. module_output_types g (elem nd) = Some sh
            \<and> ignore_shape dims sh = Inr out_shape
            \<and> collect_edges g dims rest
                 (dict_set (fst st) ''output'' (Output out_shape), snd st @ [(name nd, ''output'')])
                = Inr st'))"
  by (auto simp: Let_def split: if_splits option.splits sum.splits)

lemma collect_edges_edges:
  "collect_edges g dims nds st = Inr st' \<Longrightarrow>
   set (snd st) \<subseteq> set (snd st')
   \<and> (\<forall>n\<in>set nds. outgoing_nodes n = [] \<longrightarrow> (name n, ''output'') \<in> set (snd st'))"
proof (induction nds arbitrary: st)
  case Nil
  then show ?case by simp
next
  case (Cons nd rest)
  from collect_edges_cases [OF Cons.prems] show ?case
  proof (elim disjE conjE exE)
    assume "outgoing_nodes nd \<noteq> []"
      and c: "collect_edges g dims rest
           (fst st, snd st @ map (\<lambda>(destination, shape). (name nd, destination)) (outgoing_nodes nd))
          = Inr st'"
    then show ?thesis using Cons.IH [OF c] by auto
  next
    fix sh out_shape
    assume "outgoing_nodes nd = []"
      and c: "collect_edges g dims rest
                 (dict_set (fst st) ''output'' (Output out_shape), snd st @ [(name nd, ''output'')])
                = Inr st'"
    then show ?thesis using Cons.IH [OF c] by auto
  qed
qed

lemma collect_edges_no_sink:
  "collect_edges g dims nds st = Inr st' \<Longrightarrow> filter (\<lambda>n. outgoing_nodes n = []) nds = [] \<Longrightarrow>
   fst st' = fst st"
proof (induction nds arbitrary: st)
  case Nil
  then show ?case by simp
next
  case (Cons nd rest)
  from Cons.prems(2) have n: "outgoing_nodes nd \<noteq> []"
    and r: "filter (\<lambda>n. outgoing_nodes n = []) rest = []"
    by (auto split: if_splits)
  from collect_edges_cases [OF Cons.prems(1)] n
  have "collect_edges g dims rest
           (fst st, snd st @ map (\<lambda>(destination, shape). (name nd, destination)) (outgoing_nodes nd))
          = Inr st'" by auto
  from Cons.IH [OF this r] show ?case by simp
qed

lemma collect_edges_output:
  "collect_edges g dims nds st = Inr st' \<Longrightarrow> filter (\<lambda>n. outgoing_nodes n = []) nds \<noteq> [] \<Longrightarrow>
   \<exists>sh out_shape.
      module_output_types g (elem (last (filter (\<lambda>n. outgoing_nodes n = []) nds))) = Some sh
      \<and> ignore_shape dims sh = Inr out_shape
      \<and> map_of (fst st') ''output'' = Some (Output out_shape)"
proof (induction nds arbitrary: st)
  case Nil
  then show ?case by simp
next
  case (Cons nd rest)
  from collect_edges_cases [OF Cons.prems(1)] show ?case
  proof (elim disjE conjE exE)
    assume n: "outgoing_nodes nd \<noteq> []"
      and c: "collect_edges g dims rest
           (fst st, snd st @ map (\<lambda>(destination, shape). (name nd, destination)) (outgoing_nodes nd))
          = Inr st'"
    from n Cons.prems(2) have "filter (\<lambda>n. outgoing_nodes n = []) rest \<noteq> []" by simp
    from Cons.IH [OF c this] n show ?thesis by simp
  next
    fix sh out_shape
    assume n: "outgoing_nodes nd = []"
      and m: "module_output_types g (elem nd) = Some sh"
      and i: "ignore_shape dims sh = Inr out_shape"
      and c: "collect_edges g dims rest
                 (dict_set (fst st) ''output'' (Output out_shape), snd st @ [(name nd, ''output'')])
                = Inr st'"
    show ?thesis
    proof (cases "filter (\<lambda>n. outgoing_nodes n = []) rest = []")
      case True
      from collect_edges_no_sink [OF c True]
      have "map_of (fst st') ''output'' = Some (Output out_shape)"
        by (simp add: map_of_dict_set)
      then show ?thesis using n m i True by simp
    next
      case False
      from Cons.IH [OF c False] n False show ?thesis by simp
    qed
  qed
qed

lemma collect_edges_returns:
  "\<forall>n\<in>set nds. outgoing_nodes n = [] \<longrightarrow>
     (\<exists>sh out_shape. module_output_types g (elem n) = Some sh \<and> ignore_shape dims sh = Inr out_shape) \<Longrightarrow>
   \<exists>st'. collect_edges g dims nds st = Inr st'"
proof (induction nds arbitrary: st)
  case Nil
  then show ?case by simp
next
  case (Cons nd rest)
  show ?case
  proof (cases "outgoing_nodes nd = []")
    case True
    with Cons.prems obtain sh out_shape where
      "module_output_types g (elem nd) = Some sh" "ignore_shape dims sh = Inr out_shape"
      by auto
    then show ?thesis using True Cons.IH Cons.prems by (simp add: Let_def)
  next
    case False
    then show ?thesis using Cons.IH Cons.prems by (simp add: Let_def)
  qed
qed

text \<open>
  C6, as the code has it.  Extraction returns an IR when the trace has one root, the
  ignored dimensions exist in the shape of the sample, and every traced node without
  outgoing edges has a recorded output shape in which the ignored dimensions exist.  In
  every IR that extraction returns there is an edge from every traced node without
  outgoing edges to the node named \<^verbatim>\<open>output\<close>; and when there is such a traced
  node, the node named \<^verbatim>\<open>output\<close> is an \<open>Output\<close> node that carries the recorded
  output shape, minus the ignored dimensions, of the last such node of the node list.
\<close>

theorem extraction_output_node:
  "(length (get_root g) = 1 \<and> (\<exists>input_shape. ignore_shape ignore_dims sample_shape = Inr input_shape)
      \<and> (\<forall>n\<in>set (node_list g). outgoing_nodes n = [] \<longrightarrow>
            (\<exists>sh out_shape. module_output_types g (elem n) = Some sh
                \<and> ignore_shape ignore_dims sh = Inr out_shape)) \<longrightarrow>
    (\<exists>nir_nodes nir_edges.
        extract_nir_graph model_map g sample_shape ignore_dims = Inr (NIRGraph nir_nodes nir_edges)))
   \<and> (\<forall>nir_nodes nir_edges.
        extract_nir_graph model_map g sample_shape ignore_dims = Inr (NIRGraph nir_nodes nir_edges) \<longrightarrow>
        (\<forall>n\<in>set (node_list g). outgoing_nodes n = [] \<longrightarrow> (name n, ''output'') \<in> set nir_edges)
        \<and> (filter (\<lambda>n. outgoing_nodes n = []) (node_list g) \<noteq> [] \<longrightarrow>
             (\<exists>sh out_shape.
                module_output_types g (elem (last (filter (\<lambda>n. outgoing_nodes n = []) (node_list g))))
                  = Some sh
                \<and> ignore_shape ignore_dims sh = Inr out_shape
                \<and> map_of nir_nodes ''output'' = Some (Output out_shape))))"
proof (intro conjI allI impI)
  assume a: "length (get_root g) = 1
      \<and> (\<exists>input_shape. ignore_shape ignore_dims sample_shape = Inr input_shape)
      \<and> (\<forall>n\<in>set (node_list g). outgoing_nodes n = [] \<longrightarrow>
            (\<exists>sh out_shape. module_output_types g (elem n) = Some sh
                \<and> ignore_shape ignore_dims sh = Inr out_shape))"
  then obtain input_shape where i: "ignore_shape ignore_dims sample_shape = Inr input_shape"
    by auto
  from a collect_edges_returns [of "node_list g" g ignore_dims
         "convert_nodes model_map 0 (node_list g) ([(''input'', Input input_shape)], [])"]
  obtain st' where "collect_edges g ignore_dims (node_list g)
         (convert_nodes model_map 0 (node_list g) ([(''input'', Input input_shape)], [])) = Inr st'"
    by auto
  with a i show "\<exists>nir_nodes nir_edges.
        extract_nir_graph model_map g sample_shape ignore_dims = Inr (NIRGraph nir_nodes nir_edges)"
    by (cases st') (simp add: extract_nir_graph_def)
next
  fix nir_nodes nir_edges
  assume r: "extract_nir_graph model_map g sample_shape ignore_dims
               = Inr (NIRGraph nir_nodes nir_edges)"
  then obtain input_shape es where
    c: "collect_edges g ignore_dims (node_list g)
         (convert_nodes model_map 0 (node_list g) ([(''input'', Input input_shape)], []))
          = Inr (nir_nodes, es)"
    and e: "nir_edges = remdups es"
    by (auto simp: extract_nir_graph_def split: if_splits sum.splits prod.splits)
  show "\<forall>n\<in>set (node_list g). outgoing_nodes n = [] \<longrightarrow> (name n, ''output'') \<in> set nir_edges"
    using collect_edges_edges [OF c] e by simp
  show "\<exists>sh out_shape.
          module_output_types g (elem (last (filter (\<lambda>n. outgoing_nodes n = []) (node_list g))))
            = Some sh
          \<and> ignore_shape ignore_dims sh = Inr out_shape
          \<and> map_of nir_nodes ''output'' = Some (Output out_shape)"
    if "filter (\<lambda>n. outgoing_nodes n = []) (node_list g) \<noteq> []"
    using collect_edges_output [OF c that] by simp
qed

lemma two_sinks_sinks:
  "filter (\<lambda>n. outgoing_nodes n = []) (node_list two_sinks_graph)
     = [\<lparr>name = ''b'', elem = ''B'', outgoing_nodes = []\<rparr>,
        \<lparr>name = ''c'', elem = ''C'', outgoing_nodes = []\<rparr>]"
  by (simp add: two_sinks_graph_def)

lemma ignore_first_dim:
  "ignore_shape (Some [0]) [a, b] = Inr [b]"
  by (simp add: ignore_shape_def np_delete_def Let_def enumerate_eq_zip upt_rec)

theorem extraction_output_node_witness:
  "\<exists>nir_nodes nir_edges.
      extract_nir_graph Leaf two_sinks_graph [4, 5] (Some [0]) = Inr (NIRGraph nir_nodes nir_edges)
      \<and> (''b'', ''output'') \<in> set nir_edges \<and> (''c'', ''output'') \<in> set nir_edges
      \<and> map_of nir_nodes ''output'' = Some (Output [3])"
proof -
  note inst = extraction_output_node [of two_sinks_graph "Some [0]" "[4, 5]" Leaf]
  have "length (get_root two_sinks_graph) = 1"
    by (simp add: two_sinks_graph_def)
  moreover have "\<exists>input_shape. ignore_shape (Some [0]) [4, 5] = Inr input_shape"
    by (simp add: ignore_first_dim)
  moreover have "\<forall>n\<in>set (node_list two_sinks_graph). outgoing_nodes n = [] \<longrightarrow>
            (\<exists>sh out_shape. module_output_types two_sinks_graph (elem n) = Some sh
                \<and> ignore_shape (Some [0]) sh = Inr out_shape)"
    by (simp add: two_sinks_graph_def ignore_first_dim)
  ultimately obtain nir_nodes nir_edges where
    r: "extract_nir_graph Leaf two_sinks_graph [4, 5] (Some [0]) = Inr (NIRGraph nir_nodes nir_edges)"
    using inst [THEN conjunct1] by blast
  have e: "\<forall>n\<in>set (node_list two_sinks_graph).
             outgoing_nodes n = [] \<longrightarrow> (name n, ''output'') \<in> set nir_edges"
    using inst [THEN conjunct2] r by blast
  have ne: "filter (\<lambda>n. outgoing_nodes n = []) (node_list two_sinks_graph) \<noteq> []"
    by (simp add: two_sinks_sinks)
  have o: "\<exists>sh out_shape.
             module_output_types two_sinks_graph
               (elem (last (filter (\<lambda>n. outgoing_nodes n = []) (node_list two_sinks_graph)))) = Some sh
             \<and> ignore_shape (Some [0]) sh = Inr out_shape
             \<and> map_of nir_nodes ''output'' = Some (Output out_shape)"
    using inst [THEN conjunct2] r ne by blast
  have "(''b'', ''output'') \<in> set nir_edges" "(''c'', ''output'') \<in> set nir_edges"
    using e by (simp_all add: two_sinks_graph_def)
  moreover have "map_of nir_nodes ''output'' = Some (Output [3])"
    using o by (auto simp: two_sinks_sinks two_sinks_graph_def ignore_first_dim)
  ultimately show ?thesis using r by blast
qed

text \<open>
  C6 as stated fails: the traced node \<open>b\<close> has no outgoing edges and the recorded
  output shape \<open>[4, 2]\<close>, which is \<open>[2]\<close> without dimension 0, but the only \<open>Output\<close>
  node of the IR carries \<open>[3]\<close>, the shape of the later node \<open>c\<close>.
\<close>

theorem two_sinks_one_output:
  "extract_nir_graph Leaf two_sinks_graph [4, 5] (Some [0])
     = Inr (NIRGraph
              [(''input'', Input [5]), (''a'', Leaf ''A''), (''b'', Leaf ''B''),
               (''c'', Leaf ''C''), (''output'', Output [3])]
              [(''input'', ''a''), (''a'', ''b''), (''a'', ''c''),
               (''b'', ''output''), (''c'', ''output'')])
   \<and> node_list two_sinks_graph ! 1 = \<lparr>name = ''b'', elem = ''B'', outgoing_nodes = []\<rparr>
   \<and> module_output_types two_sinks_graph ''B'' = Some [4, 2]
   \<and> ignore_shape (Some [0]) [4, 2] = Inr [2]"
  by (simp add: extract_nir_graph_def two_sinks_graph_def ignore_first_dim convert_node_def
        Let_def)

end
